theory Spec2Isabelle
  imports Complex_Main "HOL-Library.AList" "HOL-Library.Sublist"
begin

section \<open>JavaScript values\<close>

text \<open>
  The values that flow through the stats pipeline of \<^verbatim>\<open>js/script.js\<close>: what
  \<^verbatim>\<open>JSON.parse\<close> returns for a cache record or for the body of the API response, and
  \<^verbatim>\<open>undefined\<close> for a property that is absent. Numbers are the integers that a
  Number holds exactly (counts and epoch milliseconds, below \<open>2 ^ 53\<close> in magnitude), so
  subtraction and comparison are exact; the one division of the program is rounded to a
  binary64 value explicitly (see \<open>number_div\<close>). JSON strings and arrays are left out of
  the value universe: in a cache record and in the response of the API they stand only in
  fields that the pipeline never reads. An object is the list of its own properties.
\<close>

datatype jsval =
    Undefined
  | Null
  | Bool bool
  | Num int
  | Obj "(string \<times> jsval) list"

datatype js_error = TypeError | SyntaxError | HttpError nat | NetworkError | QuotaExceededError

text \<open>Property access \<^verbatim>\<open>v.name\<close>: a TypeError on \<^verbatim>\<open>undefined\<close> and \<^verbatim>\<open>null\<close>,
  the own property of an object, \<^verbatim>\<open>undefined\<close> otherwise (none of the names the
  program reads is inherited from a prototype).\<close>

fun get_prop :: "jsval \<Rightarrow> string \<Rightarrow> js_error + jsval" where
  "get_prop Undefined name = Inl TypeError"
| "get_prop Null name = Inl TypeError"
| "get_prop (Obj fs) name = Inr (case map_of fs name of None \<Rightarrow> Undefined | Some v \<Rightarrow> v)"
| "get_prop v name = Inr Undefined"

text \<open>Truthiness, as tested by \<^verbatim>\<open>if (cached)\<close> and \<^verbatim>\<open>if (!this.stats)\<close>.\<close>

fun truthy :: "jsval \<Rightarrow> bool" where
  "truthy Undefined = False"
| "truthy Null = False"
| "truthy (Bool b) = b"
| "truthy (Num n) = (n \<noteq> 0)"
| "truthy (Obj fs) = True"

text \<open>
  ToNumber, used by \<^verbatim>\<open>-\<close>, \<^verbatim>\<open>>=\<close> and \<^verbatim>\<open><\<close>; \<open>None\<close> is NaN. An object is
  first converted to a primitive: the inherited \<^verbatim>\<open>valueOf\<close> returns the object itself,
  then \<^verbatim>\<open>toString\<close> is called, which gives \<^verbatim>\<open>"[object Object]"\<close> (NaN as a number)
  unless the object has an own property of that name, which, coming from JSON, is not
  callable: then the conversion throws a TypeError.
\<close>

fun to_number :: "jsval \<Rightarrow> js_error + int option" where
  "to_number Undefined = Inr None"
| "to_number Null = Inr (Some 0)"
| "to_number (Bool b) = Inr (Some (if b then 1 else 0))"
| "to_number (Num n) = Inr (Some n)"
| "to_number (Obj fs) = (if ''toString'' \<in> set (map fst fs) then Inl TypeError else Inr None)"

section \<open>Number formatting\<close>

definition digit_char :: "nat \<Rightarrow> char" where
  "digit_char d = ''0123456789'' ! d"

text \<open>The decimal numeral of a natural number, without leading zeros.\<close>

fun dec_nat :: "nat \<Rightarrow> string" where
  "dec_nat n = (if n < 10 then [digit_char n] else dec_nat (n div 10) @ [digit_char (n mod 10)])"

declare dec_nat.simps [simp del]

text \<open>\<^verbatim>\<open>Number.prototype.toString\<close> on an integer that a Number holds exactly (at most
  \<open>2 ^ 53\<close> in magnitude): there it prints every digit.\<close>

definition dec_int :: "int \<Rightarrow> string" where
  "dec_int i = (if i < 0 then CHR ''-'' # dec_nat (nat (- i)) else dec_nat (nat i))"

text \<open>\<^verbatim>\<open>v.toString()\<close>: a TypeError on \<^verbatim>\<open>undefined\<close> and \<^verbatim>\<open>null\<close>, and on an
  object whose own \<^verbatim>\<open>toString\<close> property shadows the method.\<close>

fun js_toString :: "jsval \<Rightarrow> js_error + string" where
  "js_toString Undefined = Inl TypeError"
| "js_toString Null = Inl TypeError"
| "js_toString (Bool b) = Inr (if b then ''true'' else ''false'')"
| "js_toString (Num n) = Inr (dec_int n)"
| "js_toString (Obj fs) =
     (if ''toString'' \<in> set (map fst fs) then Inl TypeError else Inr ''[object Object]'')"

text \<open>
  Rounding to the nearest integer, ties to the even one: the rounding of IEEE 754
  arithmetic.
\<close>

definition round_half_even :: "rat \<Rightarrow> int" where
  "round_half_even x =
     (let f = \<lfloor>x\<rfloor>; d = x - of_int f
      in if d < 1 / 2 then f else if 1 / 2 < d then f + 1 else if even f then f else f + 1)"

fun bit_length :: "nat \<Rightarrow> nat" where
  "bit_length n = (if n = 0 then 0 else Suc (bit_length (n div 2)))"

declare bit_length.simps [simp del]

text \<open>
  The binary64 value nearest to a rational \<open>x \<ge> 1\<close> (below the overflow threshold): with
  \<open>2 ^ e \<le> x < 2 ^ (e + 1)\<close> the representable numbers around \<open>x\<close> are the multiples of
  \<open>2 ^ (e - 52)\<close>, and \<open>x\<close> is rounded to the nearest of them, ties to the even
  significand.
\<close>

definition to_binary64 :: "rat \<Rightarrow> rat" where
  "to_binary64 x =
     (let e = bit_length (nat \<lfloor>x\<rfloor>) - 1;
          ulp = (if e \<le> 52 then 1 / 2 ^ (52 - e) else 2 ^ (e - 52))
      in of_int (round_half_even (x / ulp)) * ulp)"

text \<open>\<^verbatim>\<open>a / b\<close> on two integer Numbers with \<open>0 < b \<le> a\<close>: the exact quotient, rounded
  once.\<close>

definition number_div :: "int \<Rightarrow> int \<Rightarrow> rat" where
  "number_div a b = to_binary64 (of_int a / of_int b)"

text \<open>
  \<^verbatim>\<open>x.toFixed(1)\<close> for \<open>0 \<le> x < 10 ^ 21\<close>: ECMA-262 takes the integer \<open>n\<close> for which
  \<open>n / 10 - x\<close> is as close to zero as possible, the larger one if there are two, and
  prints it with a point before its last digit.
\<close>

definition toFixed1 :: "rat \<Rightarrow> string" where
  "toFixed1 x =
     (let n = nat \<lfloor>10 * x + 1 / 2\<rfloor>
      in dec_nat (n div 10) @ ''.'' @ dec_nat (n mod 10))"

text \<open>
  \<^verbatim>\<open>
  formatNumber(num) {
      if (num >= 1000) {
          return (num / 1000).toFixed(1) + 'k';
      }
      return num.toString();
  }
  \<close>
  The comparison converts \<open>num\<close> to a number and is false on NaN; only a Number can pass
  it, since \<^verbatim>\<open>null\<close>, \<^verbatim>\<open>true\<close> and \<^verbatim>\<open>false\<close> convert to 0 and 1. For a Number of
  the value universe (at most \<open>2 ^ 53\<close> in magnitude) the quotient stays below \<open>10 ^ 21\<close>,
  the range in which \<^verbatim>\<open>toFixed\<close> prints no exponent.
\<close>

definition formatNumber :: "jsval \<Rightarrow> js_error + string" where
  "formatNumber num =
     (case to_number num of
        Inl e \<Rightarrow> Inl e
      | Inr None \<Rightarrow> js_toString num
      | Inr (Some i) \<Rightarrow>
          if 1000 \<le> i then Inr (toFixed1 (number_div i 1000) @ ''k'')
          else js_toString num)"

text \<open>The reading of the specification: \<open>n / 1000\<close> rounded half up to one decimal
  place.\<close>

definition spec_formatNumber :: "nat \<Rightarrow> string" where
  "spec_formatNumber n =
     (if n < 1000 then dec_nat n
      else let m = (n + 50) div 100 in dec_nat (m div 10) @ ''.'' @ dec_nat (m mod 10) @ ''k'')"

section \<open>Configuration\<close>

definition GITHUB_API_URL :: string where
  "GITHUB_API_URL = ''https://api.github.com/repos/horsicq/Detect-It-Easy''"

definition CACHE_KEY :: string where
  "CACHE_KEY = ''die_github_stats''"

definition CACHE_DURATION :: int where
  "CACHE_DURATION = 30 * 60 * 1000"

section \<open>The browser: storage, page, effects\<close>

text \<open>
  A string kept in \<^verbatim>\<open>localStorage\<close> is read by the program only through
  \<^verbatim>\<open>JSON.parse\<close> and a test for emptiness, so it is represented by what the parser makes
  of it: \<open>Text t\<close> is a string \<open>t\<close> that is not a JSON document (the parser throws a
  SyntaxError; \<open>Text []\<close> is the empty string), \<open>Json v\<close> is the text of a JSON document
  whose value is \<open>v\<close>.
\<close>

datatype stored = Text string | Json jsval

datatype effect = Fetch string | SetItem string stored | RemoveItem string

text \<open>A display slot shows a text, or runs the count-up animation towards a target (its
  frames are not modelled).\<close>

datatype slot = Static string | CountUp jsval

datatype outcome = Done | Threw js_error

text \<open>
  The state the program works on: \<^verbatim>\<open>this.stats\<close> of the provider, the entries of
  \<^verbatim>\<open>localStorage\<close> in the order \<^verbatim>\<open>Object.keys\<close> lists them, whether the storage
  accepts a write (\<^verbatim>\<open>setItem\<close> throws a QuotaExceededError otherwise), the elements of
  the page by id with what they show, the ids of the elements that lie inside the
  viewport, and the calls made to the storage and to the network so far.
\<close>

record state =
  stats :: jsval
  storage :: "(string \<times> stored) list"
  writable :: bool
  elements :: "(string \<times> slot) list"
  viewport :: "string list"
  trace :: "effect list"

definition getItem :: "string \<Rightarrow> state \<Rightarrow> stored option" where
  "getItem key s = map_of (storage s) key"

definition removeItem :: "string \<Rightarrow> state \<Rightarrow> state" where
  "removeItem key s =
     s\<lparr>storage := AList.delete key (storage s), trace := trace s @ [RemoveItem key]\<rparr>"

definition setItem :: "string \<Rightarrow> stored \<Rightarrow> state \<Rightarrow> outcome \<times> state" where
  "setItem key v s =
     (let s' = s\<lparr>trace := trace s @ [SetItem key v]\<rparr>
      in if writable s then (Done, s'\<lparr>storage := AList.update key v (storage s)\<rparr>)
         else (Threw QuotaExceededError, s'))"

fun JSON_parse :: "stored \<Rightarrow> js_error + jsval" where
  "JSON_parse (Text t) = Inl SyntaxError"
| "JSON_parse (Json v) = Inr v"

text \<open>What \<^verbatim>\<open>JSON.stringify\<close> keeps of a value: a property whose value is
  \<^verbatim>\<open>undefined\<close> is not written.\<close>

primrec json_kept :: "jsval \<Rightarrow> jsval" where
  "json_kept Undefined = Undefined"
| "json_kept Null = Null"
| "json_kept (Bool b) = Bool b"
| "json_kept (Num n) = Num n"
| "json_kept (Obj fs) =
     Obj (filter (\<lambda>p. snd p \<noteq> Undefined) (map (map_prod id json_kept) fs))"

definition JSON_stringify :: "jsval \<Rightarrow> stored" where
  "JSON_stringify v = Json (json_kept v)"

text \<open>\<^verbatim>\<open>now - ts\<close> and the comparisons of the result: NaN is absorbing and compares
  false.\<close>

definition js_sub :: "int \<Rightarrow> int option \<Rightarrow> int option" where
  "js_sub now t = map_option (\<lambda>t. now - t) t"

definition js_lt :: "int option \<Rightarrow> int \<Rightarrow> bool" where
  "js_lt a b = (case a of None \<Rightarrow> False | Some a \<Rightarrow> a < b)"

definition js_gt :: "int option \<Rightarrow> int \<Rightarrow> bool" where
  "js_gt a b = (case a of None \<Rightarrow> False | Some a \<Rightarrow> b < a)"

section \<open>GitHubStats\<close>

text \<open>
  \<^verbatim>\<open>
  getCachedStats() {
      try {
          const cached = localStorage.getItem(CONFIG.CACHE_KEY);
          if (!cached) return null;
          const parsed = JSON.parse(cached);
          const now = Date.now();
          if (now - parsed.timestamp < CONFIG.CACHE_DURATION) {
              return parsed;
          }
          localStorage.removeItem(CONFIG.CACHE_KEY);
          return null;
      } catch (error) {
          return null;
      }
  }
  \<close>
\<close>

definition getCachedStats :: "int \<Rightarrow> state \<Rightarrow> jsval \<times> state" where
  "getCachedStats now s =
     (case getItem CACHE_KEY s of
        None \<Rightarrow> (Null, s)
      | Some cached \<Rightarrow>
          if cached = Text [] then (Null, s)
          else
            (case JSON_parse cached of
               Inl e \<Rightarrow> (Null, s)
             | Inr parsed \<Rightarrow>
                 (case get_prop parsed ''timestamp'' of
                    Inl e \<Rightarrow> (Null, s)
                  | Inr ts \<Rightarrow>
                      (case to_number ts of
                         Inl e \<Rightarrow> (Null, s)
                       | Inr t \<Rightarrow>
                           if js_lt (js_sub now t) CACHE_DURATION then (parsed, s)
                           else (Null, removeItem CACHE_KEY s)))))"

text \<open>\<^verbatim>\<open>updateElement(id, value)\<close> and \<^verbatim>\<open>animateNumber(id, targetValue)\<close>: nothing
  happens when the page has no element of that id.\<close>

definition updateElement :: "string \<Rightarrow> string \<Rightarrow> state \<Rightarrow> state" where
  "updateElement i v s =
     (case map_of (elements s) i of
        None \<Rightarrow> s
      | Some el \<Rightarrow> s\<lparr>elements := AList.update i (Static v) (elements s)\<rparr>)"

definition animateNumber :: "string \<Rightarrow> jsval \<Rightarrow> state \<Rightarrow> state" where
  "animateNumber i target s =
     (case map_of (elements s) i of
        None \<Rightarrow> s
      | Some el \<Rightarrow> s\<lparr>elements := AList.update i (CountUp target) (elements s)\<rparr>)"

definition and_then :: "outcome \<times> state \<Rightarrow> (state \<Rightarrow> outcome \<times> state) \<Rightarrow> outcome \<times> state" where
  "and_then r f = (case r of (Done, s) \<Rightarrow> f s | (Threw e, s) \<Rightarrow> (Threw e, s))"

text \<open>\<^verbatim>\<open>this.updateElement(id, Utils.formatNumber(this.stats.name))\<close>: the argument is
  evaluated first, and an exception there leaves the element alone.\<close>

definition write_formatted :: "string \<Rightarrow> string \<Rightarrow> state \<Rightarrow> outcome \<times> state" where
  "write_formatted i name s =
     (case get_prop (stats s) name of
        Inl e \<Rightarrow> (Threw e, s)
      | Inr v \<Rightarrow>
          (case formatNumber v of
             Inl e \<Rightarrow> (Threw e, s)
           | Inr txt \<Rightarrow> (Done, updateElement i txt s)))"

definition animate_prop :: "string \<Rightarrow> string \<Rightarrow> state \<Rightarrow> outcome \<times> state" where
  "animate_prop i name s =
     (case get_prop (stats s) name of
        Inl e \<Rightarrow> (Threw e, s)
      | Inr v \<Rightarrow> (Done, animateNumber i v s))"

definition write_issues :: "state \<Rightarrow> outcome \<times> state" where
  "write_issues s =
     (case get_prop (stats s) ''openIssues'' of
        Inl e \<Rightarrow> (Threw e, s)
      | Inr v \<Rightarrow>
          (case js_toString v of
             Inl e \<Rightarrow> (Threw e, s)
           | Inr txt \<Rightarrow> (Done, updateElement ''detailed-issues'' txt s)))"

text \<open>
  \<^verbatim>\<open>
  updateDOM() {
      if (!this.stats) return;
      this.updateElement('github-stars', Utils.formatNumber(this.stats.stars));
      this.updateElement('github-forks', Utils.formatNumber(this.stats.forks));
      const detailedStars = document.getElementById('detailed-stars');
      if (detailedStars && this.isElementInViewport(detailedStars)) {
          this.animateNumber('detailed-stars', this.stats.stars);
          this.animateNumber('detailed-forks', this.stats.forks);
          this.animateNumber('detailed-watchers', this.stats.watchers);
      } else {
          this.updateElement('detailed-stars', Utils.formatNumber(this.stats.stars));
          this.updateElement('detailed-forks', Utils.formatNumber(this.stats.forks));
          this.updateElement('detailed-watchers', Utils.formatNumber(this.stats.watchers));
      }
      this.updateElement('detailed-issues', this.stats.openIssues.toString());
  }
  \<close>
\<close>

definition updateDOM :: "state \<Rightarrow> outcome \<times> state" where
  "updateDOM s =
     (if \<not> truthy (stats s) then (Done, s)
      else
        and_then (write_formatted ''github-stars'' ''stars'' s) (\<lambda>s.
        and_then (write_formatted ''github-forks'' ''forks'' s) (\<lambda>s.
        and_then
          (if map_of (elements s) ''detailed-stars'' \<noteq> None \<and> ''detailed-stars'' \<in> set (viewport s)
           then
             and_then (animate_prop ''detailed-stars'' ''stars'' s) (\<lambda>s.
             and_then (animate_prop ''detailed-forks'' ''forks'' s) (\<lambda>s.
             animate_prop ''detailed-watchers'' ''watchers'' s))
           else
             and_then (write_formatted ''detailed-stars'' ''stars'' s) (\<lambda>s.
             and_then (write_formatted ''detailed-forks'' ''forks'' s) (\<lambda>s.
             write_formatted ''detailed-watchers'' ''watchers'' s)))
          write_issues)))"

definition fallback_stats :: jsval where
  "fallback_stats =
     Obj [(''stars'', Num 10200), (''forks'', Num 879), (''watchers'', Num 168),
          (''openIssues'', Num 0)]"

definition showFallbackStats :: "state \<Rightarrow> outcome \<times> state" where
  "showFallbackStats s = updateDOM (s\<lparr>stats := fallback_stats\<rparr>)"

text \<open>
  \<^verbatim>\<open>
  cacheStats(stats) {
      try {
          const cacheData = { data: stats, timestamp: Date.now() };
          localStorage.setItem(CONFIG.CACHE_KEY, JSON.stringify(cacheData));
      } catch (error) { }
  }
  \<close>
\<close>

definition cacheStats :: "jsval \<Rightarrow> int \<Rightarrow> state \<Rightarrow> state" where
  "cacheStats st now s =
     snd (setItem CACHE_KEY (JSON_stringify (Obj [(''data'', st), (''timestamp'', Num now)])) s)"

text \<open>The answer of the network to the one GET: \<open>None\<close> when the request is rejected,
  otherwise a response with its status and a body that \<^verbatim>\<open>response.json()\<close> can or cannot
  parse.\<close>

datatype body = NotJson | JsonBody jsval

record response =
  ok :: bool
  status :: nat
  body :: body

text \<open>The object literal of \<^verbatim>\<open>fetchFromAPI\<close>, lines 113 to 118.\<close>

definition snapshot_of :: "jsval \<Rightarrow> js_error + jsval" where
  "snapshot_of data =
     (case get_prop data ''stargazers_count'' of Inl e \<Rightarrow> Inl e | Inr a \<Rightarrow>
      case get_prop data ''forks_count'' of Inl e \<Rightarrow> Inl e | Inr b \<Rightarrow>
      case get_prop data ''subscribers_count'' of Inl e \<Rightarrow> Inl e | Inr c \<Rightarrow>
      case get_prop data ''open_issues_count'' of Inl e \<Rightarrow> Inl e | Inr d \<Rightarrow>
        Inr (Obj [(''stars'', a), (''forks'', b), (''watchers'', c), (''openIssues'', d)]))"

text \<open>
  The \<^verbatim>\<open>try\<close> block of \<^verbatim>\<open>fetchFromAPI\<close>; \<open>now\<close> is the clock when the response has
  arrived and the record is written.
  \<^verbatim>\<open>
  const response = await fetch(CONFIG.GITHUB_API_URL);
  if (!response.ok) {
      throw new Error(`HTTP ${response.status}: ${response.statusText}`);
  }
  const data = await response.json();
  this.stats = { stars: data.stargazers_count, ... };
  this.cacheStats(this.stats);
  this.updateDOM();
  \<close>
\<close>

definition fetch_and_render :: "response option \<Rightarrow> int \<Rightarrow> state \<Rightarrow> outcome \<times> state" where
  "fetch_and_render reply now s0 =
     (let s = s0\<lparr>trace := trace s0 @ [Fetch GITHUB_API_URL]\<rparr>
      in case reply of
           None \<Rightarrow> (Threw NetworkError, s)
         | Some r \<Rightarrow>
             if \<not> ok r then (Threw (HttpError (status r)), s)
             else
               (case body r of
                  NotJson \<Rightarrow> (Threw SyntaxError, s)
                | JsonBody data \<Rightarrow>
                    (case snapshot_of data of
                       Inl e \<Rightarrow> (Threw e, s)
                     | Inr snap \<Rightarrow> updateDOM (cacheStats snap now (s\<lparr>stats := snap\<rparr>)))))"

text \<open>\<^verbatim>\<open>fetchFromAPI\<close>: whatever the \<^verbatim>\<open>try\<close> block throws is caught, and the handler
  calls \<^verbatim>\<open>showFallbackStats\<close>.\<close>

definition fetchFromAPI :: "response option \<Rightarrow> int \<Rightarrow> state \<Rightarrow> outcome \<times> state" where
  "fetchFromAPI reply now s =
     (case fetch_and_render reply now s of
        (Done, s') \<Rightarrow> (Done, s')
      | (Threw e, s') \<Rightarrow> showFallbackStats s')"

text \<open>What the outside world supplies to one run of \<^verbatim>\<open>loadStats\<close>: the clock at the
  cache read, the answer of the network, and the clock when the record is written.\<close>

record load_env =
  read_time :: int
  reply :: "response option"
  write_time :: int

text \<open>
  \<^verbatim>\<open>
  async loadStats() {
      const cached = this.getCachedStats();
      if (cached) {
          this.stats = cached.data;
          this.updateDOM();
      } else {
          await this.fetchFromAPI();
      }
  }
  \<close>
  \<open>Threw\<close> as the outcome is the rejection of the promise: nothing handles it.
\<close>

definition loadStats :: "load_env \<Rightarrow> state \<Rightarrow> outcome \<times> state" where
  "loadStats env s =
     (case getCachedStats (read_time env) s of
        (cached, s1) \<Rightarrow>
          if truthy cached then
            (case get_prop cached ''data'' of
               Inl e \<Rightarrow> (Threw e, s1)
             | Inr d \<Rightarrow> updateDOM (s1\<lparr>stats := d\<rparr>))
          else fetchFromAPI (reply env) (write_time env) s1)"

text \<open>Several runs of \<^verbatim>\<open>loadStats\<close>, one after the other, on the same storage.\<close>

fun loads :: "load_env list \<Rightarrow> state \<Rightarrow> state" where
  "loads [] s = s"
| "loads (env # envs) s = loads envs (snd (loadStats env s))"

fun is_fetch :: "effect \<Rightarrow> bool" where
  "is_fetch (Fetch url) = True"
| "is_fetch e = False"

fun is_write :: "effect \<Rightarrow> bool" where
  "is_write (SetItem key v) = True"
| "is_write e = False"

section \<open>StorageManager and the page-load handler\<close>

text \<open>
  The body of the \<^verbatim>\<open>forEach\<close> of \<^verbatim>\<open>clearOldCache\<close> for one key:
  \<^verbatim>\<open>
  if (key.startsWith('die_')) {
      const item = localStorage.getItem(key);
      if (item) {
          const parsed = JSON.parse(item);
          const age = Date.now() - parsed.timestamp;
          if (age > 24 * 60 * 60 * 1000) {
              localStorage.removeItem(key);
          }
      }
  }
  \<close>
\<close>

definition sweep_key :: "int \<Rightarrow> string \<Rightarrow> state \<Rightarrow> outcome \<times> state" where
  "sweep_key now key s =
     (if prefix ''die_'' key then
        (case getItem key s of
           None \<Rightarrow> (Done, s)
         | Some item \<Rightarrow>
             if item = Text [] then (Done, s)
             else
               (case JSON_parse item of
                  Inl e \<Rightarrow> (Threw e, s)
                | Inr parsed \<Rightarrow>
                    (case get_prop parsed ''timestamp'' of
                       Inl e \<Rightarrow> (Threw e, s)
                     | Inr ts \<Rightarrow>
                         (case to_number ts of
                            Inl e \<Rightarrow> (Threw e, s)
                          | Inr t \<Rightarrow>
                              if js_gt (js_sub now t) (24 * 60 * 60 * 1000)
                              then (Done, removeItem key s)
                              else (Done, s)))))
      else (Done, s))"

text \<open>\<^verbatim>\<open>keys.forEach\<close>: an exception in the callback ends the loop.\<close>

fun sweep :: "int \<Rightarrow> string list \<Rightarrow> state \<Rightarrow> outcome \<times> state" where
  "sweep now [] s = (Done, s)"
| "sweep now (key # keys) s = and_then (sweep_key now key s) (sweep now keys)"

text \<open>\<^verbatim>\<open>clearOldCache\<close>: the loop over \<^verbatim>\<open>Object.keys(localStorage)\<close> inside a
  \<^verbatim>\<open>try\<close> whose handler only logs.\<close>

definition clearOldCache :: "int \<Rightarrow> state \<Rightarrow> state" where
  "clearOldCache now s = snd (sweep now (map fst (storage s)) s)"

text \<open>
  The \<^verbatim>\<open>DOMContentLoaded\<close> handler: the sweep, then \<^verbatim>\<open>new GitHubStats()\<close>, whose
  constructor sets \<^verbatim>\<open>this.stats = null\<close> and starts \<^verbatim>\<open>loadStats\<close>. The modules
  created after it touch neither the storage nor the display slots.
\<close>

definition onDOMContentLoaded :: "load_env \<Rightarrow> state \<Rightarrow> outcome \<times> state" where
  "onDOMContentLoaded env s =
     loadStats env ((clearOldCache (read_time env) s)\<lparr>stats := Null\<rparr>)"

section \<open>Notions used to state the properties\<close>

text \<open>The value a decimal numeral denotes.\<close>

definition digit_value :: "char \<Rightarrow> nat" where
  "digit_value c = of_char c - 48"

definition dec_value :: "string \<Rightarrow> nat" where
  "dec_value cs = foldl (\<lambda>a c. 10 * a + digit_value c) 0 cs"

text \<open>What \<open>formatNumber\<close> returns on a Number.\<close>

definition number_text :: "int \<Rightarrow> string" where
  "number_text i = (if 1000 \<le> i then toFixed1 (number_div i 1000) @ ''k'' else dec_int i)"

text \<open>A snapshot whose four fields are Numbers.\<close>

definition numeric_snapshot :: "int \<Rightarrow> int \<Rightarrow> int \<Rightarrow> int \<Rightarrow> jsval" where
  "numeric_snapshot a b c d =
     Obj [(''stars'', Num a), (''forks'', Num b), (''watchers'', Num c), (''openIssues'', Num d)]"

text \<open>The invariant the specification states for a snapshot: all four fields are there
  and hold non-negative integers.\<close>

definition valid_snapshot :: "jsval \<Rightarrow> bool" where
  "valid_snapshot v =
     list_all (\<lambda>name. case get_prop v name of Inr (Num n) \<Rightarrow> 0 \<le> n | _ \<Rightarrow> False)
       [''stars'', ''forks'', ''watchers'', ''openIssues'']"

text \<open>
  The page displays the numbers \<open>a\<close>, \<open>b\<close>, \<open>c\<close>, \<open>d\<close>: every display slot the page has
  shows its number, as the abbreviated text in the two compact slots, as the abbreviated
  text or as a running count-up towards it in the detailed slots, and as the plain
  numeral in the open-issues slot.
\<close>

definition slot_shows :: "string \<Rightarrow> slot option \<Rightarrow> bool" where
  "slot_shows txt sl = (sl = None \<or> sl = Some (Static txt))"

definition slot_counts :: "int \<Rightarrow> slot option \<Rightarrow> bool" where
  "slot_counts n sl =
     (sl = None \<or> sl = Some (Static (number_text n)) \<or> sl = Some (CountUp (Num n)))"

definition displays :: "int \<Rightarrow> int \<Rightarrow> int \<Rightarrow> int \<Rightarrow> state \<Rightarrow> bool" where
  "displays a b c d s =
     (slot_shows (number_text a) (map_of (elements s) ''github-stars'') \<and>
      slot_shows (number_text b) (map_of (elements s) ''github-forks'') \<and>
      slot_counts a (map_of (elements s) ''detailed-stars'') \<and>
      slot_counts b (map_of (elements s) ''detailed-forks'') \<and>
      slot_counts c (map_of (elements s) ''detailed-watchers'') \<and>
      slot_shows (dec_int d) (map_of (elements s) ''detailed-issues''))"

text \<open>Two states that differ at most in what the slots of the page show.\<close>

definition only_elements :: "state \<Rightarrow> state \<Rightarrow> bool" where
  "only_elements s s' =
     (stats s' = stats s \<and> storage s' = storage s \<and> writable s' = writable s \<and>
      viewport s' = viewport s \<and> trace s' = trace s \<and>
      map fst (elements s') = map fst (elements s))"

text \<open>The three failures of the fetch stage: the request is rejected, the status is not a
  success, the body is not JSON.\<close>

definition fetch_failed :: "response option \<Rightarrow> bool" where
  "fetch_failed answer = (case answer of None \<Rightarrow> True | Some r \<Rightarrow> \<not> ok r \<or> body r = NotJson)"

text \<open>The string \<open>cacheStats\<close> hands to \<^verbatim>\<open>setItem\<close>.\<close>

definition cache_record :: "jsval \<Rightarrow> int \<Rightarrow> stored" where
  "cache_record st now = JSON_stringify (Obj [(''data'', st), (''timestamp'', Num now)])"

text \<open>An entry the sweep gets past without an exception: an empty string, or a JSON
  document whose \<^verbatim>\<open>timestamp\<close> can be read and converted to a number.\<close>

fun sweepable :: "stored \<Rightarrow> bool" where
  "sweepable (Text t) = (t = [])"
| "sweepable (Json p) =
     (case get_prop p ''timestamp'' of
        Inl e \<Rightarrow> False
      | Inr ts \<Rightarrow> (case to_number ts of Inl e \<Rightarrow> False | Inr t \<Rightarrow> True))"

definition sweep_safe :: "state \<Rightarrow> bool" where
  "sweep_safe s = list_all (\<lambda>(k, v). prefix ''die_'' k \<longrightarrow> sweepable v) (storage s)"

text \<open>
  A stored string on which the cache read gives up without reaching the comparison of the
  age: the empty string, a string on which \<^verbatim>\<open>JSON.parse\<close> throws, or a JSON document
  on which reading the \<^verbatim>\<open>timestamp\<close> or converting it to a number throws
  (\<^verbatim>\<open>null\<close>, or a timestamp that is an object with an own \<^verbatim>\<open>toString\<close>).
\<close>

fun unreadable :: "stored \<Rightarrow> bool" where
  "unreadable (Text t) = True"
| "unreadable (Json p) =
     (case get_prop p ''timestamp'' of
        Inl e \<Rightarrow> True
      | Inr ts \<Rightarrow> (case to_number ts of Inl e \<Rightarrow> True | Inr t \<Rightarrow> False))"

text \<open>A key of the namespace whose record carries a numeric timestamp more than 24 hours
  old.\<close>

definition stale :: "int \<Rightarrow> string \<Rightarrow> state \<Rightarrow> bool" where
  "stale now k s =
     (prefix ''die_'' k \<and>
      (case getItem k s of
         Some (Json p) \<Rightarrow>
           (case get_prop p ''timestamp'' of
              Inr (Num t) \<Rightarrow> 24 * 60 * 60 * 1000 < now - t
            | _ \<Rightarrow> False)
       | _ \<Rightarrow> False))"

text \<open>A freshly loaded page with its six display slots (none of them in the viewport),
  over given storage entries; and a response with status 200 and a JSON body.\<close>

definition placeholder_page :: "(string \<times> slot) list" where
  "placeholder_page =
     [(''github-stars'', Static ''-''), (''github-forks'', Static ''-''),
      (''detailed-stars'', Static ''-''), (''detailed-forks'', Static ''-''),
      (''detailed-watchers'', Static ''-''), (''detailed-issues'', Static ''-'')]"

definition fresh_page :: "(string \<times> stored) list \<Rightarrow> state" where
  "fresh_page entries =
     \<lparr>stats = Null, storage = entries, writable = True, elements = placeholder_page,
      viewport = [], trace = []\<rparr>"

definition ok_response :: "jsval \<Rightarrow> response option" where
  "ok_response data = Some \<lparr>ok = True, status = 200, body = JsonBody data\<rparr>"

section \<open>Number formatting: decimal numerals and the rounded quotient\<close>

lemma digit_value_digit_char: "d < 10 \<Longrightarrow> digit_value (digit_char d) = d"
proof -
  assume "d < 10"
  then have "d \<in> {0, 1, 2, 3, 4, 5, 6, 7, 8, 9}"
    by auto
  then show ?thesis
    by (auto simp: digit_value_def digit_char_def)
qed

lemma dec_value_snoc: "dec_value (cs @ [c]) = 10 * dec_value cs + digit_value c"
  by (simp add: dec_value_def)

lemma dec_value_dec_nat: "dec_value (dec_nat n) = n"
proof (induction n rule: dec_nat.induct)
  case (1 n)
  show ?case
  proof (cases "n < 10")
    case True
    then show ?thesis
      by (simp add: dec_nat.simps [of n] dec_value_def digit_value_digit_char)
  next
    case False
    with "1" have "dec_value (dec_nat (n div 10)) = n div 10"
      by simp
    with False show ?thesis
      by (simp add: dec_nat.simps [of n] dec_value_snoc digit_value_digit_char)
  qed
qed

lemma bit_length_le: "n < 2 ^ k \<Longrightarrow> bit_length n \<le> k"
proof (induction k arbitrary: n)
  case 0
  then show ?case by (simp add: bit_length.simps [of 0])
next
  case (Suc k)
  show ?case
  proof (cases "n = 0")
    case True
    then show ?thesis by (simp add: bit_length.simps [of 0])
  next
    case False
    from Suc.prems have "n div 2 < 2 ^ k"
      by simp
    from Suc.IH [OF this] False show ?thesis
      by (simp add: bit_length.simps [of n])
  qed
qed

lemma round_half_even_error: "\<bar>of_int (round_half_even x) - x\<bar> \<le> 1 / 2"
proof -
  have "of_int \<lfloor>x\<rfloor> \<le> x" and "x < of_int \<lfloor>x\<rfloor> + 1"
    by linarith+
  then show ?thesis
    by (auto simp: round_half_even_def Let_def)
qed

text \<open>Below \<open>2 ^ 44\<close> the spacing of binary64 numbers is at most \<open>2 ^ -9\<close>, so rounding
  moves a number by at most \<open>2 ^ -10\<close>.\<close>

lemma to_binary64_error:
  assumes "0 \<le> x" and "x < 2 ^ 44"
  shows "\<bar>to_binary64 x - x\<bar> \<le> 1 / 1024"
proof -
  define e where "e = bit_length (nat \<lfloor>x\<rfloor>) - 1"
  define ulp :: rat where "ulp = 1 / 2 ^ (52 - e)"
  from assms have "\<lfloor>x\<rfloor> < 2 ^ 44"
    by (simp add: floor_less_iff)
  then have "nat \<lfloor>x\<rfloor> < 2 ^ 44"
    using nat_less_numeral_power_cancel_iff by blast
  from bit_length_le [OF this] have e: "e \<le> 43"
    by (simp add: e_def)
  then have b64: "to_binary64 x = of_int (round_half_even (x / ulp)) * ulp"
    by (simp add: to_binary64_def e_def ulp_def Let_def)
  have pos: "0 < ulp"
    by (simp add: ulp_def)
  from e have "(2::rat) ^ 9 \<le> 2 ^ (52 - e)"
    by (intro power_increasing) simp_all
  then have small: "ulp \<le> 1 / 2 ^ 9"
    unfolding ulp_def by (intro divide_left_mono) simp_all
  have "to_binary64 x - x = (of_int (round_half_even (x / ulp)) - x / ulp) * ulp"
    using pos by (simp add: b64 algebra_simps)
  then have "\<bar>to_binary64 x - x\<bar> = \<bar>of_int (round_half_even (x / ulp)) - x / ulp\<bar> * ulp"
    using pos by (simp add: abs_mult)
  also have "\<dots> \<le> 1 / 2 * ulp"
    using round_half_even_error [of "x / ulp"] pos by (intro mult_right_mono) simp_all
  also have "\<dots> \<le> 1 / 2 * (1 / 2 ^ 9)"
    using small by simp
  finally show ?thesis
    by simp
qed

lemma number_div_error:
  assumes "0 \<le> i" and "i < 2 ^ 53"
  shows "\<bar>number_div i 1000 - of_int i / 1000\<bar> \<le> 1 / 1024"
proof -
  from assms have "(of_int i :: rat) < 2 ^ 53"
    by (metis of_int_less_iff of_int_numeral of_int_power)
  then have "(of_int i :: rat) / 1000 < 2 ^ 44"
    by simp
  moreover from assms have "(0::rat) \<le> of_int i / 1000"
    by simp
  ultimately show ?thesis
    unfolding number_div_def using to_binary64_error [of "of_int i / 1000"] by simp
qed

lemma mod_100_shift:
  fixes i :: int
  assumes "i mod 100 \<noteq> 50"
  shows "(i + 50) mod 100 \<noteq> 0"
proof
  assume z: "(i + 50) mod 100 = 0"
  have "i mod 100 = ((i + 50) mod 100 - 50) mod 100"
    by (simp add: mod_diff_left_eq)
  with z have "i mod 100 = 50"
    by simp
  with assms show False
    by simp
qed

text \<open>A number within \<open>2 ^ -10\<close> of \<open>i / 1000\<close> has the same nearest tenth as \<open>i / 1000\<close>
  itself, unless \<open>i / 1000\<close> lies half way between two tenths.\<close>

lemma tenths_nearest:
  fixes y :: rat and i :: int
  assumes "\<bar>y - of_int i / 1000\<bar> \<le> 1 / 1024" and "i mod 100 \<noteq> 50"
  shows "\<lfloor>10 * y + 1 / 2\<rfloor> = (i + 50) div 100"
proof -
  define m where "m = (i + 50) div 100"
  define r where "r = (i + 50) mod 100"
  have i: "i = 100 * m + r - 50"
    by (simp add: m_def r_def)
  have "0 \<le> r" and "r < 100"
    by (simp_all add: r_def)
  moreover from mod_100_shift [OF assms(2)] have "r \<noteq> 0"
    by (simp add: r_def)
  ultimately have "1 \<le> r" and "r \<le> 99"
    by simp_all
  then have r: "(1::rat) \<le> of_int r" "(of_int r :: rat) \<le> 99"
    by simp_all
  have i': "(of_int i :: rat) = 100 * of_int m + of_int r - 50"
    by (simp add: i)
  define q :: rat where "q = of_int i / 1000"
  have q: "1000 * q = of_int i"
    by (simp add: q_def)
  from assms(1) have b: "y \<le> q + 1 / 1024" "q - 1 / 1024 \<le> y"
    unfolding q_def by linarith+
  have "of_int m \<le> 10 * y + 1 / 2"
    using b r q unfolding i' by linarith
  moreover have "10 * y + 1 / 2 < of_int m + 1"
    using b r q unfolding i' by linarith
  ultimately show ?thesis
    unfolding m_def [symmetric] by (intro floor_unique) simp_all
qed

lemma tenths_tie:
  fixes y :: rat and i :: int
  assumes "\<bar>y - of_int i / 1000\<bar> \<le> 1 / 1024" and "i mod 100 = 50"
  shows "\<lfloor>10 * y + 1 / 2\<rfloor> = i div 100 \<or> \<lfloor>10 * y + 1 / 2\<rfloor> = i div 100 + 1"
proof -
  define a where "a = i div 100"
  have "i = 100 * a + i mod 100"
    by (simp add: a_def)
  with assms(2) have "i = 100 * a + 50"
    by simp
  then have i': "of_int i = (100 * of_int a + 50 :: rat)"
    by simp
  define q :: rat where "q = of_int i / 1000"
  have q: "1000 * q = of_int i"
    by (simp add: q_def)
  from assms(1) have b: "y \<le> q + 1 / 1024" "q - 1 / 1024 \<le> y"
    unfolding q_def by linarith+
  have "of_int a \<le> 10 * y + 1 / 2"
    using b q unfolding i' by linarith
  moreover have "10 * y + 1 / 2 < of_int (a + 2)"
    using b q unfolding i' by simp
  ultimately have "a \<le> \<lfloor>10 * y + 1 / 2\<rfloor>" and "\<lfloor>10 * y + 1 / 2\<rfloor> < a + 2"
    by (simp_all only: le_floor_iff floor_less_iff)
  then show ?thesis
    unfolding a_def [symmetric] by linarith
qed

lemma formatNumber_Num: "formatNumber (Num i) = Inr (number_text i)"
  by (simp add: formatNumber_def number_text_def)

lemma formatNumber_small: "n < 1000 \<Longrightarrow> formatNumber (Num (int n)) = Inr (dec_nat n)"
  by (simp add: formatNumber_def dec_int_def)

lemma formatNumber_large:
  "1000 \<le> n \<Longrightarrow>
   formatNumber (Num (int n)) =
     Inr (dec_nat (nat \<lfloor>10 * number_div (int n) 1000 + 1 / 2\<rfloor> div 10) @ ''.'' @
          dec_nat (nat \<lfloor>10 * number_div (int n) 1000 + 1 / 2\<rfloor> mod 10) @ ''k'')"
  by (simp add: formatNumber_def toFixed1_def Let_def)

lemma tenth_of_quotient:
  fixes n :: nat
  assumes "n < 2 ^ 53"
  defines "m \<equiv> nat \<lfloor>10 * number_div (int n) 1000 + 1 / 2\<rfloor>"
  shows "(n mod 100 \<noteq> 50 \<longrightarrow> m = (n + 50) div 100) \<and>
         (n mod 100 = 50 \<longrightarrow> m = n div 100 \<or> m = n div 100 + 1)"
proof -
  from assms(1) have "int n < 2 ^ 53"
    by (metis of_nat_less_iff of_nat_numeral of_nat_power)
  then have err: "\<bar>number_div (int n) 1000 - of_int (int n) / 1000\<bar> \<le> 1 / 1024"
    by (intro number_div_error) simp_all
  have mod: "int n mod 100 = int (n mod 100)" and div: "int n div 100 = int (n div 100)"
    and div': "(int n + 50) div 100 = int ((n + 50) div 100)"
    by (simp_all add: zmod_int zdiv_int)
  show ?thesis
  proof (cases "n mod 100 = 50")
    case True
    then have "int n mod 100 = 50"
      by (simp add: mod)
    from tenths_tie [OF err this] True show ?thesis
      unfolding m_def div by auto
  next
    case False
    then have "int n mod 100 \<noteq> 50"
      unfolding mod by linarith
    from tenths_nearest [OF err this] False show ?thesis
      unfolding m_def div' by simp
  qed
qed

text \<open>
  Claim C4, as amended. For a natural number \<open>n < 1000\<close>, \<open>formatNumber\<close> returns the
  decimal numeral of \<open>n\<close>. For \<open>1000 \<le> n < 2 ^ 53\<close> it returns a numeral with one decimal
  followed by \<open>k\<close>; the numeral is the tenth nearest to the binary64 quotient \<open>n / 1000\<close>,
  which is \<open>n / 1000\<close> rounded to the nearest tenth whenever \<open>n / 1000\<close> is not half way
  between two tenths (\<open>n mod 100 \<noteq> 50\<close>), and one of the two neighbouring tenths
  otherwise.
\<close>

theorem formatNumber_rounds_binary_quotient:
  fixes n :: nat
  shows "(n < 1000 \<longrightarrow>
            formatNumber (Num (int n)) = Inr (dec_nat n) \<and> dec_value (dec_nat n) = n) \<and>
         (1000 \<le> n \<and> n < 2 ^ 53 \<longrightarrow>
            (\<exists>m. formatNumber (Num (int n)) =
                    Inr (dec_nat (m div 10) @ ''.'' @ dec_nat (m mod 10) @ ''k'') \<and>
                 (n mod 100 \<noteq> 50 \<longrightarrow> m = (n + 50) div 100) \<and>
                 (n mod 100 = 50 \<longrightarrow> m = n div 100 \<or> m = n div 100 + 1)))"
  using formatNumber_small [of n] formatNumber_large [of n] tenth_of_quotient [of n]
    dec_value_dec_nat [of n]
  by blast

text \<open>The three examples of the specification, from the theorem.\<close>

theorem formatNumber_rounds_binary_quotient_witness:
  "formatNumber (Num 999) = Inr ''999'' \<and> formatNumber (Num 1000) = Inr ''1.0k'' \<and>
   formatNumber (Num 10200) = Inr ''10.2k''"
  using formatNumber_rounds_binary_quotient [of 999] formatNumber_rounds_binary_quotient [of 1000]
    formatNumber_rounds_binary_quotient [of 10200]
  by (auto simp: dec_nat.simps digit_char_def)

text \<open>
  The claim as stated fails at 1150: \<open>1150 / 1000\<close> rounded to one decimal place is 1.2,
  but the binary64 quotient lies just below 1.15 and \<^verbatim>\<open>toFixed(1)\<close> prints 1.1.
\<close>

theorem formatNumber_tie_counterexample:
  "formatNumber (Num 1150) = Inr ''1.1k'' \<and> spec_formatNumber 1150 = ''1.2k''"
  by code_simp

section \<open>What rendering changes and what it leaves\<close>

lemma keys_update_present: "map_of al k = Some v \<Longrightarrow> map fst (AList.update k v' al) = map fst al"
  by (auto simp: update_keys dest: map_of_SomeD intro: rev_image_eqI)

lemma only_elements_refl: "only_elements s s"
  by (simp add: only_elements_def)

lemma only_elements_trans:
  "only_elements s s1 \<Longrightarrow> only_elements s1 s2 \<Longrightarrow> only_elements s s2"
  by (simp add: only_elements_def)

lemma only_elements_updateElement: "only_elements s (updateElement i v s)"
  by (simp add: only_elements_def updateElement_def keys_update_present split: option.splits)

lemma only_elements_animateNumber: "only_elements s (animateNumber i v s)"
  by (simp add: only_elements_def animateNumber_def keys_update_present split: option.splits)

lemma only_elements_and_then:
  assumes "only_elements s (snd r)"
      and "\<And>s1. only_elements s1 (snd (f s1))"
  shows "only_elements s (snd (and_then r f))"
proof (cases r)
  case (Pair out s1)
  show ?thesis
  proof (cases out)
    case Done
    with Pair assms(1) assms(2) [of s1] show ?thesis
      by (auto simp: and_then_def intro: only_elements_trans)
  next
    case (Threw e)
    with Pair assms(1) show ?thesis
      by (simp add: and_then_def)
  qed
qed

lemma only_elements_write_formatted: "only_elements s (snd (write_formatted i name s))"
  by (simp add: write_formatted_def only_elements_refl only_elements_updateElement
      split: sum.splits)

lemma only_elements_animate_prop: "only_elements s (snd (animate_prop i name s))"
  by (simp add: animate_prop_def only_elements_refl only_elements_animateNumber
      split: sum.splits)

lemma only_elements_write_issues: "only_elements s (snd (write_issues s))"
  by (simp add: write_issues_def only_elements_refl only_elements_updateElement
      split: sum.splits)

lemma only_elements_updateDOM: "only_elements s (snd (updateDOM s))"
  unfolding updateDOM_def
  by (auto intro!: only_elements_and_then only_elements_write_formatted
      only_elements_animate_prop only_elements_write_issues only_elements_refl)

lemma elements_updateElement:
  "map_of (elements (updateElement i v s)) j =
     (if i = j \<and> map_of (elements s) i \<noteq> None then Some (Static v) else map_of (elements s) j)"
  by (auto simp: updateElement_def update_conv' split: option.splits)

lemma elements_animateNumber:
  "map_of (elements (animateNumber i v s)) j =
     (if i = j \<and> map_of (elements s) i \<noteq> None then Some (CountUp v) else map_of (elements s) j)"
  by (auto simp: animateNumber_def update_conv' split: option.splits)

lemma stats_updateElement: "stats (updateElement i v s) = stats s"
  by (simp add: updateElement_def split: option.splits)

lemma stats_animateNumber: "stats (animateNumber i v s) = stats s"
  by (simp add: animateNumber_def split: option.splits)

lemma viewport_updateElement: "viewport (updateElement i v s) = viewport s"
  by (simp add: updateElement_def split: option.splits)

lemma viewport_animateNumber: "viewport (animateNumber i v s) = viewport s"
  by (simp add: animateNumber_def split: option.splits)

text \<open>Rendering a snapshot of four Numbers completes, and the page displays them.\<close>

lemma updateDOM_numeric:
  assumes "stats s = numeric_snapshot a b c d"
  shows "fst (updateDOM s) = Done \<and> displays a b c d (snd (updateDOM s))"
  using assms
  by (simp add: updateDOM_def numeric_snapshot_def and_then_def write_formatted_def
      animate_prop_def write_issues_def formatNumber_Num displays_def slot_shows_def
      slot_counts_def elements_updateElement elements_animateNumber stats_updateElement
      stats_animateNumber viewport_updateElement viewport_animateNumber)

lemma fallback_is_numeric: "fallback_stats = numeric_snapshot 10200 879 168 0"
  by (simp add: fallback_stats_def numeric_snapshot_def)

lemma fallback_texts:
  "number_text 10200 = ''10.2k'' \<and> number_text 879 = ''879'' \<and> number_text 168 = ''168'' \<and>
   dec_int 0 = ''0''"
  by code_simp

lemma showFallbackStats_result:
  "fst (showFallbackStats s) = Done \<and>
   displays 10200 879 168 0 (snd (showFallbackStats s)) \<and>
   only_elements (s\<lparr>stats := fallback_stats\<rparr>) (snd (showFallbackStats s))"
  unfolding showFallbackStats_def
  using updateDOM_numeric [of "s\<lparr>stats := fallback_stats\<rparr>" 10200 879 168 0]
    only_elements_updateDOM [of "s\<lparr>stats := fallback_stats\<rparr>"]
  by (simp add: fallback_is_numeric)

lemma showFallbackStats_frame:
  "storage (snd (showFallbackStats s)) = storage s \<and> trace (snd (showFallbackStats s)) = trace s \<and>
   writable (snd (showFallbackStats s)) = writable s"
  using showFallbackStats_result [of s] by (simp add: only_elements_def)

section \<open>The cache read\<close>

lemma getItem_removeItem: "getItem k (removeItem k' s) = (if k' = k then None else getItem k s)"
  by (simp add: getItem_def removeItem_def delete_conv)

lemma trace_removeItem: "trace (removeItem k s) = trace s @ [RemoveItem k]"
  by (simp add: removeItem_def)

lemma valid_record_read:
  assumes "getItem CACHE_KEY s = Some (Json parsed)"
      and "get_prop parsed ''timestamp'' = Inr (Num t)"
      and "now - t < CACHE_DURATION"
  shows "getCachedStats now s = (parsed, s)"
  using assms by (simp add: getCachedStats_def js_lt_def js_sub_def)

lemma has_prop_truthy: "get_prop v name = Inr (Num t) \<Longrightarrow> truthy v"
  by (cases v) auto

lemma getCachedStats_trace:
  "trace (snd (getCachedStats now s)) = trace s \<or>
   trace (snd (getCachedStats now s)) = trace s @ [RemoveItem CACHE_KEY]"
  by (simp add: getCachedStats_def trace_removeItem split: option.splits sum.splits)

text \<open>
  Claim C5. A cache record whose age is exactly 30 minutes is expired: the read at time
  \<open>timestamp + CACHE_DURATION\<close> returns no record (and removes the key), and at any time
  the read returns the record exactly when \<open>now - timestamp < CACHE_DURATION\<close>, a strict
  comparison.
\<close>

theorem boundary_record_is_expired:
  assumes "getItem CACHE_KEY s = Some (Json parsed)"
      and "get_prop parsed ''timestamp'' = Inr (Num t)"
  shows "getCachedStats (t + CACHE_DURATION) s = (Null, removeItem CACHE_KEY s) \<and>
         (\<forall>now. fst (getCachedStats now s) = parsed \<longleftrightarrow> now - t < CACHE_DURATION)"
proof -
  from assms(2) have "parsed \<noteq> Null"
    by auto
  with assms show ?thesis
    by (simp add: getCachedStats_def js_lt_def js_sub_def)
qed

text \<open>A record written at time 1000: read 1800000 ms later it is expired, one
  millisecond earlier it is returned.\<close>

theorem boundary_record_is_expired_witness:
  "fst (getCachedStats 1801000 (fresh_page [(CACHE_KEY, cache_record (numeric_snapshot 1 2 3 4) 1000)])) =
     Null \<and>
   fst (getCachedStats 1800999 (fresh_page [(CACHE_KEY, cache_record (numeric_snapshot 1 2 3 4) 1000)])) =
     Obj [(''data'', numeric_snapshot 1 2 3 4), (''timestamp'', Num 1000)]"
  using boundary_record_is_expired
    [of "fresh_page [(CACHE_KEY, cache_record (numeric_snapshot 1 2 3 4) 1000)]"
      "Obj [(''data'', numeric_snapshot 1 2 3 4), (''timestamp'', Num 1000)]" 1000]
  by (simp add: getItem_def fresh_page_def cache_record_def JSON_stringify_def
      numeric_snapshot_def CACHE_DURATION_def)

text \<open>
  Claim C6. A cache read that finds a parseable record whose age is at least 30 minutes
  returns no record, and the state it leaves is the one after
  \<^verbatim>\<open>removeItem(CONFIG.CACHE_KEY)\<close>: the key is gone from the storage and the removal is
  the one storage call made.
\<close>

theorem expired_record_is_evicted:
  assumes "getItem CACHE_KEY s = Some (Json parsed)"
      and "get_prop parsed ''timestamp'' = Inr (Num t)"
      and "CACHE_DURATION \<le> now - t"
  shows "getCachedStats now s = (Null, removeItem CACHE_KEY s) \<and>
         getItem CACHE_KEY (snd (getCachedStats now s)) = None \<and>
         trace (snd (getCachedStats now s)) = trace s @ [RemoveItem CACHE_KEY]"
  using assms
  by (simp add: getCachedStats_def js_lt_def js_sub_def getItem_removeItem trace_removeItem)

theorem expired_record_is_evicted_witness:
  "storage (snd (getCachedStats 2000000
      (fresh_page [(CACHE_KEY, cache_record (numeric_snapshot 1 2 3 4) 1000)]))) = [] \<and>
   trace (snd (getCachedStats 2000000
      (fresh_page [(CACHE_KEY, cache_record (numeric_snapshot 1 2 3 4) 1000)]))) =
     [RemoveItem CACHE_KEY]"
  using expired_record_is_evicted
    [of "fresh_page [(CACHE_KEY, cache_record (numeric_snapshot 1 2 3 4) 1000)]"
      "Obj [(''data'', numeric_snapshot 1 2 3 4), (''timestamp'', Num 1000)]" 1000 2000000]
  by (simp add: getItem_def fresh_page_def cache_record_def JSON_stringify_def
      numeric_snapshot_def CACHE_DURATION_def removeItem_def)

section \<open>The fetch stage\<close>

lemma fetch_and_render_failed:
  assumes "fetch_failed answer"
  shows "\<exists>e. fetch_and_render answer now s =
           (Threw e, s\<lparr>trace := trace s @ [Fetch GITHUB_API_URL]\<rparr>)"
  using assms
  by (auto simp: fetch_failed_def fetch_and_render_def Let_def split: option.splits)

lemma fetchFromAPI_failed:
  assumes "fetch_failed answer"
  shows "fst (fetchFromAPI answer now s) = Done \<and>
         stats (snd (fetchFromAPI answer now s)) = fallback_stats \<and>
         displays 10200 879 168 0 (snd (fetchFromAPI answer now s)) \<and>
         storage (snd (fetchFromAPI answer now s)) = storage s \<and>
         trace (snd (fetchFromAPI answer now s)) = trace s @ [Fetch GITHUB_API_URL] \<and>
         map fst (elements (snd (fetchFromAPI answer now s))) = map fst (elements s)"
proof -
  from fetch_and_render_failed [OF assms] obtain e
    where "fetch_and_render answer now s =
             (Threw e, s\<lparr>trace := trace s @ [Fetch GITHUB_API_URL]\<rparr>)"
    by blast
  then have eq: "fetchFromAPI answer now s =
      showFallbackStats (s\<lparr>trace := trace s @ [Fetch GITHUB_API_URL]\<rparr>)"
    by (simp add: fetchFromAPI_def)
  show ?thesis
    unfolding eq
    using showFallbackStats_result [of "s\<lparr>trace := trace s @ [Fetch GITHUB_API_URL]\<rparr>"]
    by (simp add: only_elements_def)
qed

lemma cacheStats_frame:
  "stats (cacheStats st now s) = stats s \<and> elements (cacheStats st now s) = elements s \<and>
   viewport (cacheStats st now s) = viewport s \<and> writable (cacheStats st now s) = writable s \<and>
   trace (cacheStats st now s) = trace s @ [SetItem CACHE_KEY (cache_record st now)] \<and>
   storage (cacheStats st now s) =
     (if writable s then AList.update CACHE_KEY (cache_record st now) (storage s) else storage s)"
  by (simp add: cacheStats_def setItem_def Let_def cache_record_def)

lemma fetch_and_render_ok:
  assumes "answer = Some r" and "ok r" and "body r = JsonBody data"
      and "snapshot_of data = Inr snap"
  shows "fetch_and_render answer now s =
           updateDOM (cacheStats snap now
             (s\<lparr>trace := trace s @ [Fetch GITHUB_API_URL], stats := snap\<rparr>))"
  using assms by (simp add: fetch_and_render_def Let_def)

lemma fetchFromAPI_ok_frame:
  assumes "answer = Some r" and "ok r" and "body r = JsonBody data"
      and "snapshot_of data = Inr snap"
  shows "trace (snd (fetchFromAPI answer now s)) =
           trace s @ [Fetch GITHUB_API_URL, SetItem CACHE_KEY (cache_record snap now)] \<and>
         storage (snd (fetchFromAPI answer now s)) =
           (if writable s then AList.update CACHE_KEY (cache_record snap now) (storage s)
            else storage s)"
proof -
  let ?s1 = "cacheStats snap now (s\<lparr>trace := trace s @ [Fetch GITHUB_API_URL], stats := snap\<rparr>)"
  obtain out s2 where r: "updateDOM ?s1 = (out, s2)"
    by (cases "updateDOM ?s1")
  from only_elements_updateDOM [of ?s1] r have f2: "storage s2 = storage ?s1 \<and> trace s2 = trace ?s1"
    by (simp add: only_elements_def)
  show ?thesis
  proof (cases out)
    case Done
    with r f2 show ?thesis
      by (simp add: fetchFromAPI_def fetch_and_render_ok [OF assms] cacheStats_frame)
  next
    case (Threw e)
    with r f2 showFallbackStats_frame [of s2] show ?thesis
      by (simp add: fetchFromAPI_def fetch_and_render_ok [OF assms] cacheStats_frame)
  qed
qed

lemma fetchFromAPI_numeric:
  assumes "answer = Some r" and "ok r" and "body r = JsonBody data"
      and "snapshot_of data = Inr (numeric_snapshot a b c d)"
  shows "fst (fetchFromAPI answer now s) = Done \<and>
         stats (snd (fetchFromAPI answer now s)) = numeric_snapshot a b c d \<and>
         displays a b c d (snd (fetchFromAPI answer now s))"
proof -
  let ?snap = "numeric_snapshot a b c d"
  let ?s1 = "cacheStats ?snap now (s\<lparr>trace := trace s @ [Fetch GITHUB_API_URL], stats := ?snap\<rparr>)"
  have st: "stats ?s1 = ?snap"
    by (simp add: cacheStats_frame)
  obtain out s2 where r: "updateDOM ?s1 = (out, s2)"
    by (cases "updateDOM ?s1")
  from updateDOM_numeric [OF st] r have "out = Done" and "displays a b c d s2"
    by simp_all
  moreover from only_elements_updateDOM [of ?s1] r st have "stats s2 = ?snap"
    by (simp add: only_elements_def)
  ultimately show ?thesis
    using r by (simp add: fetchFromAPI_def fetch_and_render_ok [OF assms])
qed

lemma fetchFromAPI_trace:
  "\<exists>ws. trace (snd (fetchFromAPI answer now s)) = trace s @ Fetch GITHUB_API_URL # ws \<and>
        list_all (\<lambda>e. \<not> is_fetch e) ws"
proof (cases "fetch_failed answer")
  case True
  from fetchFromAPI_failed [OF True, of now s] show ?thesis
    by simp
next
  case False
  then obtain r data where a: "answer = Some r" "ok r" "body r = JsonBody data"
    by (auto simp: fetch_failed_def split: option.splits) (metis body.exhaust)
  show ?thesis
  proof (cases "snapshot_of data")
    case (Inl e)
    with a have "fetch_and_render answer now s =
        (Threw e, s\<lparr>trace := trace s @ [Fetch GITHUB_API_URL]\<rparr>)"
      by (simp add: fetch_and_render_def Let_def)
    then show ?thesis
      using showFallbackStats_frame [of "s\<lparr>trace := trace s @ [Fetch GITHUB_API_URL]\<rparr>"]
      by (simp add: fetchFromAPI_def)
  next
    case (Inr snap)
    from fetchFromAPI_ok_frame [OF a Inr, of now s] show ?thesis
      by simp
  qed
qed

lemma json_kept_Undefined: "json_kept v = Undefined \<longleftrightarrow> v = Undefined"
  by (cases v) simp_all

lemma snapshot_of_shape:
  assumes "snapshot_of data = Inr snap"
  shows "snap = Obj [(''stars'', projr (get_prop data ''stargazers_count'')),
                     (''forks'', projr (get_prop data ''forks_count'')),
                     (''watchers'', projr (get_prop data ''subscribers_count'')),
                     (''openIssues'', projr (get_prop data ''open_issues_count''))]"
  using assms by (auto simp: snapshot_of_def split: sum.splits)

lemma cache_record_of_snapshot:
  assumes "snapshot_of data = Inr snap"
  shows "cache_record snap now = Json (Obj [(''data'', json_kept snap), (''timestamp'', Num now)])"
proof -
  from snapshot_of_shape [OF assms] have "snap \<noteq> Undefined"
    by simp
  then show ?thesis
    by (simp add: cache_record_def JSON_stringify_def json_kept_Undefined)
qed

text \<open>
  Claim C1. When the fetch stage fails (the request is rejected, the status is not a
  success, or the body is not JSON), the provider ends with the fallback snapshot
  \<open>{stars: 10200, forks: 879, watchers: 168, openIssues: 0}\<close> in \<^verbatim>\<open>this.stats\<close>, the
  page displays its numbers in every slot it has, and the storage is as before: the one
  call made is the request, there is no \<^verbatim>\<open>setItem\<close>.
\<close>

theorem failed_fetch_renders_fallback:
  assumes "fetch_failed answer"
  shows "fst (fetchFromAPI answer now s) = Done \<and>
         stats (snd (fetchFromAPI answer now s)) = numeric_snapshot 10200 879 168 0 \<and>
         displays 10200 879 168 0 (snd (fetchFromAPI answer now s)) \<and>
         storage (snd (fetchFromAPI answer now s)) = storage s \<and>
         trace (snd (fetchFromAPI answer now s)) = trace s @ [Fetch GITHUB_API_URL] \<and>
         filter is_write (trace (snd (fetchFromAPI answer now s))) = filter is_write (trace s) \<and>
         map fst (elements (snd (fetchFromAPI answer now s))) = map fst (elements s)"
  using fetchFromAPI_failed [OF assms, of now s] by (simp add: fallback_is_numeric)

text \<open>An HTTP 500 on a fresh page; the texts the slots then show are computed from the
  program.\<close>

theorem failed_fetch_renders_fallback_witness:
  "fetch_failed (Some \<lparr>ok = False, status = 500, body = NotJson\<rparr>) \<and>
   stats (snd (fetchFromAPI (Some \<lparr>ok = False, status = 500, body = NotJson\<rparr>) 1000 (fresh_page []))) =
     numeric_snapshot 10200 879 168 0 \<and>
   trace (snd (fetchFromAPI (Some \<lparr>ok = False, status = 500, body = NotJson\<rparr>) 1000 (fresh_page []))) =
     [Fetch GITHUB_API_URL] \<and>
   elements (snd (fetchFromAPI (Some \<lparr>ok = False, status = 500, body = NotJson\<rparr>) 1000 (fresh_page []))) =
     [(''github-stars'', Static ''10.2k''), (''github-forks'', Static ''879''),
      (''detailed-stars'', Static ''10.2k''), (''detailed-forks'', Static ''879''),
      (''detailed-watchers'', Static ''168''), (''detailed-issues'', Static ''0'')]"
proof -
  have failed: "fetch_failed (Some \<lparr>ok = False, status = 500, body = NotJson\<rparr>)"
    by (simp add: fetch_failed_def)
  have shown: "elements (snd (fetchFromAPI (Some \<lparr>ok = False, status = 500, body = NotJson\<rparr>) 1000
      (fresh_page []))) =
     [(''github-stars'', Static ''10.2k''), (''github-forks'', Static ''879''),
      (''detailed-stars'', Static ''10.2k''), (''detailed-forks'', Static ''879''),
      (''detailed-watchers'', Static ''168''), (''detailed-issues'', Static ''0'')]"
    by code_simp
  from failed_fetch_renders_fallback [OF failed, of 1000 "fresh_page []"] failed shown
  show ?thesis
    by (simp add: fresh_page_def)
qed

text \<open>
  Claim C3, as amended. When the response indicates HTTP success and its body is JSON
  from which the four fields can be read (any value but \<^verbatim>\<open>null\<close>), the snapshot holds
  what the body has under \<^verbatim>\<open>stargazers_count\<close>, \<^verbatim>\<open>forks_count\<close>,
  \<^verbatim>\<open>subscribers_count\<close> and \<^verbatim>\<open>open_issues_count\<close>; after the request the provider
  calls \<^verbatim>\<open>setItem\<close> on the cache key with a record of that snapshot and the current
  time, whatever the key held, and a storage that accepts the write then holds this
  record; and when the four values are Numbers the snapshot stays in \<^verbatim>\<open>this.stats\<close> and
  the page displays them.
\<close>

theorem successful_fetch_cached_then_rendered:
  assumes "answer = Some r" and "ok r" and "body r = JsonBody data"
      and "snapshot_of data = Inr snap"
  shows "snap = Obj [(''stars'', projr (get_prop data ''stargazers_count'')),
                     (''forks'', projr (get_prop data ''forks_count'')),
                     (''watchers'', projr (get_prop data ''subscribers_count'')),
                     (''openIssues'', projr (get_prop data ''open_issues_count''))] \<and>
         trace (snd (fetchFromAPI answer now s)) =
           trace s @ [Fetch GITHUB_API_URL,
                      SetItem CACHE_KEY (Json (Obj [(''data'', json_kept snap), (''timestamp'', Num now)]))] \<and>
         (writable s \<longrightarrow>
            getItem CACHE_KEY (snd (fetchFromAPI answer now s)) =
              Some (Json (Obj [(''data'', json_kept snap), (''timestamp'', Num now)]))) \<and>
         (\<forall>a b c d. snap = numeric_snapshot a b c d \<longrightarrow>
            fst (fetchFromAPI answer now s) = Done \<and>
            stats (snd (fetchFromAPI answer now s)) = snap \<and>
            displays a b c d (snd (fetchFromAPI answer now s)))"
proof -
  note shape = snapshot_of_shape [OF assms(4)]
  note frame = fetchFromAPI_ok_frame [OF assms, of now s, unfolded cache_record_of_snapshot [OF assms(4)]]
  have num: "\<forall>a b c d. snap = numeric_snapshot a b c d \<longrightarrow>
            fst (fetchFromAPI answer now s) = Done \<and>
            stats (snd (fetchFromAPI answer now s)) = snap \<and>
            displays a b c d (snd (fetchFromAPI answer now s))"
    using fetchFromAPI_numeric [OF assms(1,2,3)] assms(4) by blast
  from frame have "writable s \<longrightarrow>
            getItem CACHE_KEY (snd (fetchFromAPI answer now s)) =
              Some (Json (Obj [(''data'', json_kept snap), (''timestamp'', Num now)]))"
    by (simp add: getItem_def update_conv')
  with shape frame num show ?thesis
    by blast
qed

text \<open>The cold start of the specification: no cache, and the endpoint answers with 500
  stars, 20 forks, 5 subscribers and 2 open issues.\<close>

theorem successful_fetch_cached_then_rendered_witness:
  "getItem CACHE_KEY (snd (fetchFromAPI
      (ok_response (Obj [(''stargazers_count'', Num 500), (''forks_count'', Num 20),
         (''subscribers_count'', Num 5), (''open_issues_count'', Num 2)])) 1000 (fresh_page []))) =
     Some (Json (Obj [(''data'', numeric_snapshot 500 20 5 2), (''timestamp'', Num 1000)])) \<and>
   stats (snd (fetchFromAPI
      (ok_response (Obj [(''stargazers_count'', Num 500), (''forks_count'', Num 20),
         (''subscribers_count'', Num 5), (''open_issues_count'', Num 2)])) 1000 (fresh_page []))) =
     numeric_snapshot 500 20 5 2"
  using successful_fetch_cached_then_rendered
    [of "ok_response (Obj [(''stargazers_count'', Num 500), (''forks_count'', Num 20),
         (''subscribers_count'', Num 5), (''open_issues_count'', Num 2)])"
      "\<lparr>ok = True, status = 200, body = JsonBody (Obj [(''stargazers_count'', Num 500),
         (''forks_count'', Num 20), (''subscribers_count'', Num 5), (''open_issues_count'', Num 2)])\<rparr>"
      "Obj [(''stargazers_count'', Num 500), (''forks_count'', Num 20),
         (''subscribers_count'', Num 5), (''open_issues_count'', Num 2)]"
      "numeric_snapshot 500 20 5 2" 1000 "fresh_page []"]
  by (simp add: ok_response_def snapshot_of_def numeric_snapshot_def fresh_page_def)

text \<open>
  The claim as stated fails for a response with a success status whose body is not JSON:
  nothing is extracted, \<^verbatim>\<open>setItem\<close> is not called, and the fallback snapshot is what
  the provider keeps.
\<close>

theorem success_status_unparseable_body_counterexample:
  "trace (snd (fetchFromAPI (Some \<lparr>ok = True, status = 200, body = NotJson\<rparr>) 1000 (fresh_page []))) =
     [Fetch GITHUB_API_URL] \<and>
   storage (snd (fetchFromAPI (Some \<lparr>ok = True, status = 200, body = NotJson\<rparr>) 1000 (fresh_page []))) =
     [] \<and>
   stats (snd (fetchFromAPI (Some \<lparr>ok = True, status = 200, body = NotJson\<rparr>) 1000 (fresh_page []))) =
     fallback_stats"
  by code_simp

section \<open>loadStats\<close>

lemma cache_hit:
  assumes "getItem CACHE_KEY s = Some (Json parsed)"
      and "get_prop parsed ''timestamp'' = Inr (Num t)"
      and "get_prop parsed ''data'' = Inr v"
      and "read_time env - t < CACHE_DURATION"
  shows "loadStats env s = updateDOM (s\<lparr>stats := v\<rparr>)"
  using assms valid_record_read [OF assms(1,2,4)] has_prop_truthy [OF assms(2)]
  by (simp add: loadStats_def)

lemma cache_hit_frame:
  assumes "getItem CACHE_KEY s = Some (Json parsed)"
      and "get_prop parsed ''timestamp'' = Inr (Num t)"
      and "get_prop parsed ''data'' = Inr v"
      and "read_time env - t < CACHE_DURATION"
  shows "stats (snd (loadStats env s)) = v \<and> storage (snd (loadStats env s)) = storage s \<and>
         trace (snd (loadStats env s)) = trace s"
  using cache_hit [OF assms] only_elements_updateDOM [of "s\<lparr>stats := v\<rparr>"]
  by (simp add: only_elements_def)

lemma loads_cache_hits:
  assumes "getItem CACHE_KEY s = Some (Json parsed)"
      and "get_prop parsed ''timestamp'' = Inr (Num t)"
      and "get_prop parsed ''data'' = Inr v"
      and "\<forall>env \<in> set envs. read_time env - t < CACHE_DURATION"
  shows "storage (loads envs s) = storage s \<and> trace (loads envs s) = trace s"
  using assms
proof (induction envs arbitrary: s)
  case Nil
  then show ?case by simp
next
  case (Cons env envs)
  from Cons.prems have hit: "read_time env - t < CACHE_DURATION"
    by simp
  note frame = cache_hit_frame [OF Cons.prems(1,2,3) hit]
  from frame Cons.prems(1) have "getItem CACHE_KEY (snd (loadStats env s)) = Some (Json parsed)"
    by (simp add: getItem_def)
  from Cons.IH [OF this Cons.prems(2,3)] Cons.prems(4) frame show ?case
    by simp
qed

text \<open>One run of \<open>loadStats\<close> only adds calls, at most one of them a request.\<close>

lemma loadStats_trace:
  "\<exists>ws. trace (snd (loadStats env s)) = trace s @ ws \<and> length (filter is_fetch ws) \<le> 1"
proof -
  obtain cached s1 where g: "getCachedStats (read_time env) s = (cached, s1)"
    by (cases "getCachedStats (read_time env) s")
  with getCachedStats_trace [of "read_time env" s]
  have t1: "trace s1 = trace s \<or> trace s1 = trace s @ [RemoveItem CACHE_KEY]"
    by simp
  show ?thesis
  proof (cases "truthy cached")
    case True
    then obtain v where v: "get_prop cached ''data'' = Inr v"
      by (cases cached) auto
    from only_elements_updateDOM [of "s1\<lparr>stats := v\<rparr>"]
    have "trace (snd (updateDOM (s1\<lparr>stats := v\<rparr>))) = trace s1"
      by (simp add: only_elements_def)
    with True v g t1 show ?thesis
      by (auto simp: loadStats_def)
  next
    case False
    from fetchFromAPI_trace [of "reply env" "write_time env" s1] obtain ws
      where "trace (snd (fetchFromAPI (reply env) (write_time env) s1)) =
               trace s1 @ Fetch GITHUB_API_URL # ws" and "list_all (\<lambda>e. \<not> is_fetch e) ws"
      by blast
    with False g t1 show ?thesis
      by (auto simp: loadStats_def list_all_iff filter_empty_conv)
  qed
qed

text \<open>
  Claim C2. While the storage holds a record under the stats key whose timestamp is less
  than 30 minutes old, a run of \<open>loadStats\<close> puts the record's data into
  \<^verbatim>\<open>this.stats\<close> and makes no call to the network or to the storage; so any number of
  runs inside the window adds no request, and together with the run that came before
  them they make at most one.
\<close>

theorem valid_cache_no_fetch:
  assumes "getItem CACHE_KEY s = Some (Json parsed)"
      and "get_prop parsed ''timestamp'' = Inr (Num t)"
      and "get_prop parsed ''data'' = Inr v"
      and "\<forall>env \<in> set envs. read_time env - t < CACHE_DURATION"
  shows "(\<forall>env \<in> set envs.
            stats (snd (loadStats env s)) = v \<and> trace (snd (loadStats env s)) = trace s) \<and>
         filter is_fetch (trace (loads envs s)) = filter is_fetch (trace s) \<and>
         (\<forall>env0 s0. s = snd (loadStats env0 s0) \<longrightarrow>
            length (filter is_fetch (trace (loads (env0 # envs) s0))) \<le>
              Suc (length (filter is_fetch (trace s0))))"
proof -
  note hits = loads_cache_hits [OF assms]
  have "length (filter is_fetch (trace (loads (env0 # envs) s0))) \<le>
          Suc (length (filter is_fetch (trace s0)))"
    if "s = snd (loadStats env0 s0)" for env0 s0
  proof -
    from loadStats_trace [of env0 s0] that obtain ws
      where "trace s = trace s0 @ ws" and "length (filter is_fetch ws) \<le> 1"
      by blast
    with hits that show ?thesis
      by simp
  qed
  with cache_hit_frame [OF assms(1,2,3)] hits assms(4) show ?thesis
    by simp
qed

text \<open>The warm cache of the specification: a record with 12345 stars written at time
  1000, and two page loads inside its window.\<close>

theorem valid_cache_no_fetch_witness:
  "filter is_fetch (trace (loads
      [\<lparr>read_time = 2000, reply = None, write_time = 2000\<rparr>,
       \<lparr>read_time = 1800999, reply = None, write_time = 1800999\<rparr>]
      (fresh_page [(CACHE_KEY, cache_record (numeric_snapshot 12345 1 2 3) 1000)]))) = [] \<and>
   stats (snd (loadStats \<lparr>read_time = 2000, reply = None, write_time = 2000\<rparr>
      (fresh_page [(CACHE_KEY, cache_record (numeric_snapshot 12345 1 2 3) 1000)]))) =
     numeric_snapshot 12345 1 2 3"
  using valid_cache_no_fetch
    [of "fresh_page [(CACHE_KEY, cache_record (numeric_snapshot 12345 1 2 3) 1000)]"
      "Obj [(''data'', numeric_snapshot 12345 1 2 3), (''timestamp'', Num 1000)]" 1000
      "numeric_snapshot 12345 1 2 3"
      "[\<lparr>read_time = 2000, reply = None, write_time = 2000\<rparr>,
        \<lparr>read_time = 1800999, reply = None, write_time = 1800999\<rparr>]"]
  by (simp add: getItem_def fresh_page_def cache_record_def JSON_stringify_def
      numeric_snapshot_def CACHE_DURATION_def)

text \<open>A stored string that parses and whose timestamp converts to a number or to NaN is
  either returned or removed: whatever is not younger than 30 minutes, a document without
  a timestamp included, goes the way of an expired record.\<close>

lemma readable_record_read:
  assumes "getItem CACHE_KEY s = Some (Json p)"
      and "get_prop p ''timestamp'' = Inr ts"
      and "to_number ts = Inr t"
  shows "getCachedStats now s =
           (if js_lt (js_sub now t) CACHE_DURATION then (p, s)
            else (Null, removeItem CACHE_KEY s))"
  using assms by (simp add: getCachedStats_def)

lemma JSON_parse_throws_unreadable: "JSON_parse cached = Inl e \<Longrightarrow> unreadable cached"
  by (cases cached) simp_all

text \<open>
  Claim C10, as amended. When the read of the string stored under the stats key throws
  (\<^verbatim>\<open>JSON.parse\<close> throws on it, or it parses to \<^verbatim>\<open>null\<close> or to a document whose
  timestamp cannot be converted), or the string is empty, the cache read returns no
  record and leaves the state as it found it: the key keeps its value. A run of
  \<open>loadStats\<close> whose fetch fails leaves the value too; one whose fetch succeeds, on a
  storage that accepts the write, replaces it by the new record. Every string on which
  \<^verbatim>\<open>JSON.parse\<close> throws is such a string (\<open>JSON_parse_throws_unreadable\<close>).
\<close>

theorem unparseable_record_stays:
  assumes "getItem CACHE_KEY s = Some cached"
      and "unreadable cached"
  shows "getCachedStats now s = (Null, s) \<and>
         (fetch_failed (reply env) \<longrightarrow> getItem CACHE_KEY (snd (loadStats env s)) = Some cached) \<and>
         (\<forall>r data snap.
            reply env = Some r \<and> ok r \<and> body r = JsonBody data \<and>
            snapshot_of data = Inr snap \<and> writable s \<longrightarrow>
              getItem CACHE_KEY (snd (loadStats env s)) = Some (cache_record snap (write_time env)))"
proof -
  from assms have read: "getCachedStats now s = (Null, s)" for now
    by (cases cached) (auto simp: getCachedStats_def split: sum.splits)
  then have load: "loadStats env s = fetchFromAPI (reply env) (write_time env) s"
    by (simp add: loadStats_def)
  have "getItem CACHE_KEY (snd (loadStats env s)) = Some cached" if "fetch_failed (reply env)"
    using fetchFromAPI_failed [OF that, of "write_time env" s] assms(1)
    by (simp add: load getItem_def)
  moreover have "getItem CACHE_KEY (snd (loadStats env s)) =
      Some (cache_record snap (write_time env))"
    if "reply env = Some r" "ok r" "body r = JsonBody data" "snapshot_of data = Inr snap"
      "writable s" for r data snap
    using fetchFromAPI_ok_frame [OF that(1,2,3,4), of "write_time env" s] that(5)
    by (simp add: load getItem_def update_conv')
  ultimately show ?thesis
    using read by blast
qed

theorem unparseable_record_stays_witness:
  "getCachedStats 1000 (fresh_page [(CACHE_KEY, Text ''{oops'')]) =
     (Null, fresh_page [(CACHE_KEY, Text ''{oops'')]) \<and>
   getItem CACHE_KEY (snd (loadStats \<lparr>read_time = 1000, reply = None, write_time = 1500\<rparr>
      (fresh_page [(CACHE_KEY, Text ''{oops'')]))) = Some (Text ''{oops'') \<and>
   getItem CACHE_KEY (snd (loadStats
      \<lparr>read_time = 1000, reply = ok_response (Obj [(''stargazers_count'', Num 500),
         (''forks_count'', Num 20), (''subscribers_count'', Num 5), (''open_issues_count'', Num 2)]),
       write_time = 1500\<rparr>
      (fresh_page [(CACHE_KEY, Text ''{oops'')]))) =
     Some (cache_record (numeric_snapshot 500 20 5 2) 1500)"
proof -
  let ?s = "fresh_page [(CACHE_KEY, Text ''{oops'')]"
  let ?data = "Obj [(''stargazers_count'', Num 500),
         (''forks_count'', Num 20), (''subscribers_count'', Num 5), (''open_issues_count'', Num 2)]"
  have stored: "getItem CACHE_KEY ?s = Some (Text ''{oops'')"
    by (simp add: getItem_def fresh_page_def)
  have throws: "unreadable (Text ''{oops'')"
    by (rule JSON_parse_throws_unreadable [of _ SyntaxError]) simp
  have snap: "snapshot_of ?data = Inr (numeric_snapshot 500 20 5 2)"
    by (simp add: snapshot_of_def numeric_snapshot_def)
  from unparseable_record_stays [OF stored throws, of 1000
      "\<lparr>read_time = 1000, reply = None, write_time = 1500\<rparr>"]
  have "getCachedStats 1000 ?s = (Null, ?s)"
    and "getItem CACHE_KEY (snd (loadStats \<lparr>read_time = 1000, reply = None, write_time = 1500\<rparr> ?s)) =
      Some (Text ''{oops'')"
    by (simp_all add: fetch_failed_def)
  moreover from unparseable_record_stays [OF stored throws, of 1000
      "\<lparr>read_time = 1000, reply = ok_response ?data, write_time = 1500\<rparr>"] snap
  have "getItem CACHE_KEY (snd (loadStats
      \<lparr>read_time = 1000, reply = ok_response ?data, write_time = 1500\<rparr> ?s)) =
     Some (cache_record (numeric_snapshot 500 20 5 2) 1500)"
    by (simp add: ok_response_def fresh_page_def)
  ultimately show ?thesis
    by blast
qed

text \<open>
  The claim as stated fails for the stored string \<open>{}\<close>: it is no cache record, yet it
  parses, its missing timestamp makes the age NaN, the comparison is false, and the read
  removes the key as it does for an expired record.
\<close>

theorem record_without_timestamp_counterexample:
  "getItem CACHE_KEY (fresh_page [(CACHE_KEY, Json (Obj []))]) = Some (Json (Obj [])) \<and>
   fst (getCachedStats 1000 (fresh_page [(CACHE_KEY, Json (Obj []))])) = Null \<and>
   storage (snd (getCachedStats 1000 (fresh_page [(CACHE_KEY, Json (Obj []))]))) = [] \<and>
   trace (snd (getCachedStats 1000 (fresh_page [(CACHE_KEY, Json (Obj []))]))) =
     [RemoveItem CACHE_KEY]"
  by code_simp

section \<open>The housekeeping sweep\<close>

lemma sweep_key_cases:
  "snd (sweep_key now k s) = s \<or> snd (sweep_key now k s) = removeItem k s"
  by (simp add: sweep_key_def split: option.splits sum.splits)

lemma sweep_safe_removeItem: "sweep_safe s \<Longrightarrow> sweep_safe (removeItem k s)"
  by (auto simp: sweep_safe_def removeItem_def list_all_iff AList.delete_eq)

lemma sweep_safe_getItem:
  "sweep_safe s \<Longrightarrow> prefix ''die_'' k \<Longrightarrow> getItem k s = Some v \<Longrightarrow> sweepable v"
  by (auto simp: sweep_safe_def getItem_def list_all_iff dest: map_of_SomeD)

lemma sweep_key_safe:
  assumes "sweep_safe s"
  shows "fst (sweep_key now k s) = Done"
proof (cases "prefix ''die_'' k")
  case False
  then show ?thesis by (simp add: sweep_key_def)
next
  case True
  show ?thesis
  proof (cases "getItem k s")
    case None
    with True show ?thesis by (simp add: sweep_key_def)
  next
    case (Some v)
    from sweep_safe_getItem [OF assms True Some] have "sweepable v" .
    with True Some show ?thesis
      by (cases v) (auto simp: sweep_key_def split: sum.splits)
  qed
qed

lemma sweep_key_stale:
  assumes "stale now k s"
  shows "sweep_key now k s = (Done, removeItem k s)"
  using assms
  by (auto simp: stale_def sweep_key_def js_gt_def js_sub_def
      split: option.splits stored.splits sum.splits jsval.splits)

lemma sweep_keeps_absent:
  "getItem k s = None \<Longrightarrow> getItem k (snd (sweep now ks s)) = None"
proof (induction ks arbitrary: s)
  case Nil
  then show ?case by simp
next
  case (Cons k0 ks)
  obtain out s1 where r: "sweep_key now k0 s = (out, s1)"
    by (cases "sweep_key now k0 s")
  with sweep_key_cases [of now k0 s] have "s1 = s \<or> s1 = removeItem k0 s"
    by simp
  with Cons.prems have "getItem k s1 = None"
    by (auto simp: getItem_removeItem)
  with Cons.IH [of s1] r show ?case
    by (cases out) (simp_all add: and_then_def)
qed

lemma stale_other_key:
  "k0 \<noteq> k \<Longrightarrow> stale now k (removeItem k0 s) = stale now k s"
  by (simp add: stale_def getItem_removeItem)

text \<open>The loop invariant of the sweep: while no entry throws, a stale key that is still
  to be visited is gone at the end.\<close>

lemma sweep_removes_stale:
  assumes "sweep_safe s" and "k \<in> set ks" and "stale now k s"
  shows "getItem k (snd (sweep now ks s)) = None"
  using assms
proof (induction ks arbitrary: s)
  case Nil
  then show ?case by simp
next
  case (Cons k0 ks)
  obtain out s1 where r: "sweep_key now k0 s = (out, s1)"
    by (cases "sweep_key now k0 s")
  from sweep_key_safe [OF Cons.prems(1), of now k0] r have out: "out = Done"
    by simp
  from sweep_key_cases [of now k0 s] r have s1: "s1 = s \<or> s1 = removeItem k0 s"
    by simp
  with Cons.prems(1) have safe1: "sweep_safe s1"
    by (auto intro: sweep_safe_removeItem)
  show ?case
  proof (cases "k0 = k")
    case True
    with sweep_key_stale [OF Cons.prems(3)] r have "s1 = removeItem k s"
      by simp
    then have "getItem k s1 = None"
      by (simp add: getItem_removeItem)
    from sweep_keeps_absent [OF this] r out show ?thesis
      by (simp add: and_then_def)
  next
    case False
    with Cons.prems(2) have mem: "k \<in> set ks"
      by simp
    from False s1 Cons.prems(3) have "stale now k s1"
      by (auto simp: stale_other_key)
    from Cons.IH [OF safe1 mem this] r out show ?thesis
      by (simp add: and_then_def)
  qed
qed

lemma stale_is_key: "stale now k s \<Longrightarrow> k \<in> set (map fst (storage s))"
  by (auto simp: stale_def getItem_def split: option.splits dest!: map_of_SomeD intro: rev_image_eqI)

text \<open>
  Claim C7, as amended. The page-load handler runs the sweep first: the calls of the
  sweep open the trace of the page load, before any call of the stats provider. After the
  sweep, every key under the prefix \<^verbatim>\<open>die_\<close> whose record carries a timestamp more than
  24 hours old is absent from the storage, provided that no entry under the prefix makes
  the sweep throw, that is, each of them is an empty string or a JSON document whose
  timestamp can be read (the loop ends at the first entry that throws).
\<close>

theorem sweep_removes_stale_records:
  assumes "sweep_safe s"
  shows "(\<forall>k. stale now k s \<longrightarrow> getItem k (clearOldCache now s) = None) \<and>
         prefix (trace (clearOldCache (read_time env) s)) (trace (snd (onDOMContentLoaded env s)))"
proof -
  have "\<forall>k. stale now k s \<longrightarrow> getItem k (clearOldCache now s) = None"
    unfolding clearOldCache_def
    using sweep_removes_stale [OF assms] stale_is_key by blast
  moreover from loadStats_trace [of env "(clearOldCache (read_time env) s)\<lparr>stats := Null\<rparr>"]
  have "prefix (trace (clearOldCache (read_time env) s)) (trace (snd (onDOMContentLoaded env s)))"
    by (auto simp: onDOMContentLoaded_def)
  ultimately show ?thesis
    by blast
qed

text \<open>The scenario of the specification: a record written at time 0, swept 25 hours
  later.\<close>

theorem sweep_removes_stale_records_witness:
  "sweep_safe (fresh_page [(''die_github_stats'', cache_record (numeric_snapshot 1 2 3 4) 0)]) \<and>
   stale 90000000 ''die_github_stats''
     (fresh_page [(''die_github_stats'', cache_record (numeric_snapshot 1 2 3 4) 0)]) \<and>
   getItem ''die_github_stats'' (clearOldCache 90000000
     (fresh_page [(''die_github_stats'', cache_record (numeric_snapshot 1 2 3 4) 0)])) = None"
proof -
  let ?s = "fresh_page [(''die_github_stats'', cache_record (numeric_snapshot 1 2 3 4) 0)]"
  have safe: "sweep_safe ?s"
    by (simp add: sweep_safe_def fresh_page_def cache_record_def JSON_stringify_def)
  have old: "stale 90000000 ''die_github_stats'' ?s"
    by (simp add: stale_def getItem_def fresh_page_def cache_record_def JSON_stringify_def)
  from sweep_removes_stale_records [OF safe, of 90000000] old
  have "getItem ''die_github_stats'' (clearOldCache 90000000 ?s) = None"
    by blast
  with safe old show ?thesis
    by blast
qed

text \<open>
  The claim as stated fails when an entry under the prefix that is visited earlier cannot
  be parsed: the exception ends the loop, and the 25 hours old record stays.
\<close>

theorem sweep_aborts_counterexample:
  "stale 90000000 ''die_github_stats''
     (fresh_page [(''die_broken'', Text ''{oops''),
        (''die_github_stats'', cache_record (numeric_snapshot 1 2 3 4) 0)]) \<and>
   getItem ''die_github_stats'' (clearOldCache 90000000
     (fresh_page [(''die_broken'', Text ''{oops''),
        (''die_github_stats'', cache_record (numeric_snapshot 1 2 3 4) 0)])) =
     Some (cache_record (numeric_snapshot 1 2 3 4) 0)"
  by code_simp

section \<open>Snapshots are taken as found\<close>

lemma valid_numeric:
  "valid_snapshot (numeric_snapshot a b c d) \<longleftrightarrow> 0 \<le> a \<and> 0 \<le> b \<and> 0 \<le> c \<and> 0 \<le> d"
  by (simp add: valid_snapshot_def numeric_snapshot_def)

text \<open>
  Claim C8, as amended. The program checks no snapshot. A snapshot built from a response
  holds what the response has under the four mapped names: when these are non-negative
  integers, all four fields are there and non-negative. A snapshot taken from a valid cache
  record is the \<^verbatim>\<open>data\<close> of the record, whatever that is.
\<close>

theorem snapshot_takes_fields_as_found:
  "(answer = Some r \<and> ok r \<and> body r = JsonBody data \<and>
    get_prop data ''stargazers_count'' = Inr (Num a) \<and>
    get_prop data ''forks_count'' = Inr (Num b) \<and>
    get_prop data ''subscribers_count'' = Inr (Num c) \<and>
    get_prop data ''open_issues_count'' = Inr (Num d) \<and>
    0 \<le> a \<and> 0 \<le> b \<and> 0 \<le> c \<and> 0 \<le> d \<longrightarrow>
      stats (snd (fetchFromAPI answer now s)) = numeric_snapshot a b c d \<and>
      valid_snapshot (stats (snd (fetchFromAPI answer now s)))) \<and>
   (getItem CACHE_KEY s = Some (Json parsed) \<and>
    get_prop parsed ''timestamp'' = Inr (Num t) \<and> read_time env - t < CACHE_DURATION \<and>
    get_prop parsed ''data'' = Inr v \<longrightarrow>
      stats (snd (loadStats env s)) = v)"
proof -
  have "stats (snd (fetchFromAPI answer now s)) = numeric_snapshot a b c d \<and>
        valid_snapshot (stats (snd (fetchFromAPI answer now s)))"
    if "answer = Some r" "ok r" "body r = JsonBody data"
      "get_prop data ''stargazers_count'' = Inr (Num a)"
      "get_prop data ''forks_count'' = Inr (Num b)"
      "get_prop data ''subscribers_count'' = Inr (Num c)"
      "get_prop data ''open_issues_count'' = Inr (Num d)"
      "0 \<le> a" "0 \<le> b" "0 \<le> c" "0 \<le> d"
  proof -
    from that have "snapshot_of data = Inr (numeric_snapshot a b c d)"
      by (simp add: snapshot_of_def numeric_snapshot_def)
    from fetchFromAPI_numeric [OF that(1,2,3) this, of now s] that show ?thesis
      by (simp add: valid_numeric)
  qed
  moreover have "stats (snd (loadStats env s)) = v"
    if "getItem CACHE_KEY s = Some (Json parsed)" "get_prop parsed ''timestamp'' = Inr (Num t)"
      "read_time env - t < CACHE_DURATION" "get_prop parsed ''data'' = Inr v"
    using cache_hit_frame [OF that(1,2,4,3)] by simp
  ultimately show ?thesis
    by blast
qed

theorem snapshot_takes_fields_as_found_witness:
  "valid_snapshot (stats (snd (fetchFromAPI
      (ok_response (Obj [(''stargazers_count'', Num 500), (''forks_count'', Num 20),
         (''subscribers_count'', Num 5), (''open_issues_count'', Num 2)])) 1000 (fresh_page [])))) \<and>
   stats (snd (loadStats \<lparr>read_time = 2000, reply = None, write_time = 2000\<rparr>
      (fresh_page [(CACHE_KEY, cache_record (numeric_snapshot 12345 1 2 3) 1000)]))) =
     numeric_snapshot 12345 1 2 3"
proof -
  let ?data = "Obj [(''stargazers_count'', Num 500), (''forks_count'', Num 20),
         (''subscribers_count'', Num 5), (''open_issues_count'', Num 2)]"
  let ?r = "\<lparr>ok = True, status = 200, body = JsonBody ?data\<rparr>"
  have given: "ok_response ?data = Some ?r \<and> ok ?r \<and> body ?r = JsonBody ?data \<and>
    get_prop ?data ''stargazers_count'' = Inr (Num 500) \<and>
    get_prop ?data ''forks_count'' = Inr (Num 20) \<and>
    get_prop ?data ''subscribers_count'' = Inr (Num 5) \<and>
    get_prop ?data ''open_issues_count'' = Inr (Num 2) \<and>
    (0::int) \<le> 500 \<and> (0::int) \<le> 20 \<and> (0::int) \<le> 5 \<and> (0::int) \<le> 2"
    by (simp add: ok_response_def)
  from snapshot_takes_fields_as_found
    [where answer = "ok_response ?data" and r = ?r and data = ?data
      and a = 500 and b = 20 and c = 5 and d = 2 and now = 1000 and s = "fresh_page []",
      THEN conjunct1, THEN mp, OF given]
  have "valid_snapshot (stats (snd (fetchFromAPI (ok_response ?data) 1000 (fresh_page []))))"
    by (rule conjunct2)
  moreover from snapshot_takes_fields_as_found
    [where s = "fresh_page [(CACHE_KEY, cache_record (numeric_snapshot 12345 1 2 3) 1000)]"
      and parsed = "Obj [(''data'', numeric_snapshot 12345 1 2 3), (''timestamp'', Num 1000)]"
      and t = 1000 and env = "\<lparr>read_time = 2000, reply = None, write_time = 2000\<rparr>"
      and v = "numeric_snapshot 12345 1 2 3", THEN conjunct2]
  have "stats (snd (loadStats \<lparr>read_time = 2000, reply = None, write_time = 2000\<rparr>
      (fresh_page [(CACHE_KEY, cache_record (numeric_snapshot 12345 1 2 3) 1000)]))) =
     numeric_snapshot 12345 1 2 3"
    by (simp add: getItem_def fresh_page_def cache_record_def JSON_stringify_def
        numeric_snapshot_def CACHE_DURATION_def)
  ultimately show ?thesis
    by blast
qed

text \<open>
  The claim as stated fails for a response that has only \<^verbatim>\<open>stargazers_count\<close>: the
  snapshot built from it lacks three fields, it is written to the cache as it is, and the
  next page load takes it from there into \<^verbatim>\<open>this.stats\<close>.
\<close>

theorem partial_snapshot_counterexample:
  "getItem CACHE_KEY
     (snd (fetchFromAPI (ok_response (Obj [(''stargazers_count'', Num 5)])) 1000 (fresh_page []))) =
     Some (Json (Obj [(''data'', Obj [(''stars'', Num 5)]), (''timestamp'', Num 1000)])) \<and>
   stats (snd (loadStats \<lparr>read_time = 2000, reply = None, write_time = 2000\<rparr>
     (fresh_page [(CACHE_KEY,
        Json (Obj [(''data'', Obj [(''stars'', Num 5)]), (''timestamp'', Num 1000)]))]))) =
     Obj [(''stars'', Num 5)] \<and>
   \<not> valid_snapshot (Obj [(''stars'', Num 5)])"
  by code_simp

section \<open>An exception that nothing catches\<close>

text \<open>
  Claim C9 does not hold of the program. A response with a success status and the JSON
  body \<open>{}\<close> makes the provider write the record \<open>{data: {}, timestamp}\<close> before the
  rendering of that snapshot throws (the fallback is then shown). On the next page load
  inside the 30 minutes the record is a cache hit: \<open>updateDOM\<close> throws the TypeError of
  \<^verbatim>\<open>undefined.toString()\<close> in \<open>formatNumber\<close>, \<open>loadStats\<close> has no handler, the promise is
  rejected, and every slot of the page still shows its placeholder.
\<close>

theorem cached_partial_snapshot_escapes:
  "storage (snd (onDOMContentLoaded \<lparr>read_time = 1000, reply = ok_response (Obj []), write_time = 1500\<rparr>
      (fresh_page []))) =
     [(CACHE_KEY, Json (Obj [(''data'', Obj []), (''timestamp'', Num 1500)]))] \<and>
   onDOMContentLoaded \<lparr>read_time = 2000, reply = None, write_time = 2000\<rparr>
      (fresh_page [(CACHE_KEY, Json (Obj [(''data'', Obj []), (''timestamp'', Num 1500)]))]) =
     (Threw TypeError,
      (fresh_page [(CACHE_KEY, Json (Obj [(''data'', Obj []), (''timestamp'', Num 1500)]))])
        \<lparr>stats := Obj []\<rparr>)"
  by code_simp

end
